theory Spec2Isabelle
  imports Complex_Main
begin

section \<open>Experiment configuration of the fine-tuning driver (finetuning/config.py)\<close>

text \<open>
  The module declares five dataclasses, a derivation step (\<open>__post_init__\<close>) that rewrites
  three naming fields of the aggregate, and \<open>load_config_from_env\<close>, which overlays three
  environment variables on a default aggregate.

  Conventions of the embedding:
  \<^item> a dataclass is a record with the source's field names and field order;
  \<^item> Python \<open>str\<close> is \<open>string\<close>, \<open>int\<close> is \<open>int\<close>, \<open>Optional[T]\<close> is \<open>T option\<close>;
  \<^item> \<open>float\<close> fields are \<open>real\<close>: the module stores the literals and never computes
    with them, so only their identity matters;
  \<^item> a raised exception is the \<open>Inl\<close> side of a sum, a normal return the \<open>Inr\<close> side;
  \<^item> in-place mutation of \<open>self\<close> and of \<open>config\<close> is a record update that is returned.
\<close>

subsection \<open>The dataclasses\<close>

record ModelConfig =
  model_name :: string
  use_4bit :: bool
  bnb_4bit_compute_dtype :: string
  bnb_4bit_quant_type :: string
  use_nested_quant :: bool
  lora_r :: int
  lora_alpha :: int
  lora_dropout :: real
  lora_target_modules :: "string list"
  max_seq_length :: int
  trust_remote_code :: bool

record DataConfig =
  dataset_name :: string
  split :: string
  max_prompt_length :: int
  max_completion_length :: int
  train_test_split :: real
  num_proc :: int
  max_samples :: "int option"

record TrainingConfig =
  output_dir :: string
  per_device_train_batch_size :: int
  per_device_eval_batch_size :: int
  gradient_accumulation_steps :: int
  num_train_epochs :: int
  learning_rate :: real
  lr_scheduler_type :: string
  warmup_ratio :: real
  weight_decay :: real
  max_grad_norm :: real
  eval_steps :: int
  logging_steps :: int
  save_steps :: int
  save_total_limit :: int
  load_best_model_at_end :: bool
  metric_for_best_model :: string
  greater_is_better :: bool
  ppo_epochs :: int
  mini_batch_size :: int
  vf_coef :: real
  cliprange :: real
  cliprange_value :: real
  gamma :: real
  lam :: real
  target_kl :: real
  num_samples :: int
  kl_coeff :: real
  clip_range :: real
  entropy_coeff :: real
  use_advantage_whitening :: bool
  advantage_norm_eps :: real
  temperature_schedule :: bool
  initial_temperature :: real
  min_temperature :: real
  max_new_tokens :: int
  do_sample :: bool
  temperature :: real
  top_p :: real
  reward_model_path :: "string option"
  code_execution_timeout :: real

record HuggingFaceConfig =
  hub_model_id :: string
  hub_token :: "string option"
  push_to_hub :: bool
  hub_private_repo :: bool
  hub_strategy :: string

record ExperimentConfig =
  model :: ModelConfig
  data :: DataConfig
  training :: TrainingConfig
  hf :: HuggingFaceConfig
  seed :: int
  "method" :: string
  use_wandb :: bool
  wandb_project :: string
  wandb_run_name :: "string option"

subsection \<open>Defaults of the dataclasses\<close>

text \<open>
  Each dataclass is constructible with no argument; these are the values its generated
  \<open>__init__\<close> then stores (lines 9--26, 32--38, 45--94, 100--104).
\<close>

definition ModelConfig_default :: ModelConfig where
  "ModelConfig_default =
     \<lparr> model_name = ''codellama/CodeLlama-7b-Python-hf'',
       use_4bit = True,
       bnb_4bit_compute_dtype = ''float16'',
       bnb_4bit_quant_type = ''nf4'',
       use_nested_quant = False,
       lora_r = 64,
       lora_alpha = 16,
       lora_dropout = 1 / 10,
       lora_target_modules =
         [''q_proj'', ''k_proj'', ''v_proj'', ''o_proj'', ''gate_proj'', ''up_proj'', ''down_proj''],
       max_seq_length = 1024,
       trust_remote_code = True \<rparr>"

definition DataConfig_default :: DataConfig where
  "DataConfig_default =
     \<lparr> dataset_name = ''mbpp'',
       split = ''train'',
       max_prompt_length = 512,
       max_completion_length = 512,
       train_test_split = 9 / 10,
       num_proc = 4,
       max_samples = None \<rparr>"

definition TrainingConfig_default :: TrainingConfig where
  "TrainingConfig_default =
     \<lparr> output_dir = ''./checkpoints'',
       per_device_train_batch_size = 12,
       per_device_eval_batch_size = 12,
       gradient_accumulation_steps = 1,
       num_train_epochs = 2,
       learning_rate = 3 / 1000000,
       lr_scheduler_type = ''cosine'',
       warmup_ratio = 5 / 100,
       weight_decay = 1 / 100,
       max_grad_norm = 5 / 10,
       eval_steps = 250,
       logging_steps = 5,
       save_steps = 250,
       save_total_limit = 5,
       load_best_model_at_end = True,
       metric_for_best_model = ''eval_test_pass_rate'',
       greater_is_better = True,
       ppo_epochs = 4,
       mini_batch_size = 1,
       vf_coef = 1 / 10,
       cliprange = 2 / 10,
       cliprange_value = 15 / 100,
       gamma = 1,
       lam = 95 / 100,
       target_kl = 5 / 10,
       num_samples = 8,
       kl_coeff = 2 / 100,
       clip_range = 2 / 10,
       entropy_coeff = 1 / 100,
       use_advantage_whitening = True,
       advantage_norm_eps = 1 / 100000000,
       temperature_schedule = True,
       initial_temperature = 1,
       min_temperature = 7 / 10,
       max_new_tokens = 2048,
       do_sample = True,
       temperature = 2 / 10,
       top_p = 9 / 10,
       reward_model_path = None,
       code_execution_timeout = 3 \<rparr>"

definition HuggingFaceConfig_default :: HuggingFaceConfig where
  "HuggingFaceConfig_default =
     \<lparr> hub_model_id = ''codellama-7b-mbpp-qlora'',
       hub_token = None,
       push_to_hub = True,
       hub_private_repo = False,
       hub_strategy = ''every_save'' \<rparr>"

subsection \<open>Exceptions and the external naming function\<close>

text \<open>
  \<open>ImportError\<close> stands for the class with its subclasses (\<open>ModuleNotFoundError\<close>), which
  is what \<open>except ImportError\<close> catches; \<open>AssertionError\<close> carries its message;
  \<open>OtherException\<close> is any exception that is not an instance of the first two, with its
  class name.
\<close>

datatype py_exception = ImportError | AssertionError string | OtherException string

text \<open>
  \<open>extract_model_short_name\<close> lives in the module \<open>train\<close>, which is not part of this file.
  A call of it returns a string or raises. The statement
  \<open>from train import extract_model_short_name\<close> either raises or binds the function.
\<close>

type_synonym naming_function = "string \<Rightarrow> py_exception + string"

type_synonym train_import = "py_exception + naming_function"

subsection \<open>Strings\<close>

text \<open>
  \<open>str.lower\<close> on the ASCII range: the letters \<open>A\<close>..\<open>Z\<close> (codes 65..90) move to
  \<open>a\<close>..\<open>z\<close>, every other character stays. Each \<open>char\<close> here is one ASCII character of
  the Python string.
\<close>

definition lower_char :: "char \<Rightarrow> char" where
  "lower_char c =
     (let n = (of_char c :: nat) in if 65 \<le> n \<and> n \<le> 90 then char_of (n + 32) else c)"

definition lower :: "string \<Rightarrow> string" where
  "lower s = map lower_char s"

subsection \<open>Construction and derivation\<close>

text \<open>
  Lines 124--129: the \<open>try\<close> block holds both the import and the call, so an
  \<open>ImportError\<close> from either one selects the fallback name; any other exception is
  not caught and leaves \<open>__post_init__\<close>.
\<close>

definition except_ImportError :: "py_exception \<Rightarrow> py_exception + string" where
  "except_ImportError e = (case e of ImportError \<Rightarrow> Inr ''codellama-7b'' | _ \<Rightarrow> Inl e)"

definition model_short_name :: "train_import \<Rightarrow> string \<Rightarrow> py_exception + string" where
  "model_short_name tr name =
     (case tr of
        Inl e \<Rightarrow> except_ImportError e
      | Inr extract_model_short_name \<Rightarrow>
          (case extract_model_short_name name of
             Inl e \<Rightarrow> except_ImportError e
           | Inr s \<Rightarrow> Inr s))"

text \<open>Lines 131--138: the three assignments, in the source's order.\<close>

definition post_init :: "train_import \<Rightarrow> ExperimentConfig \<Rightarrow> py_exception + ExperimentConfig" where
  "post_init tr self =
     (case model_short_name tr (model_name (model self)) of
        Inl e \<Rightarrow> Inl e
      | Inr short \<Rightarrow>
          (let self = self\<lparr>training := (training self)
                        \<lparr>output_dir := ''./checkpoints/'' @ short @ ''-'' @ method self @ ''-qlora''\<rparr>\<rparr>;
               self = self\<lparr>hf := (hf self)
                        \<lparr>hub_model_id := short @ ''-'' @ method self @ ''-qlora''\<rparr>\<rparr>;
               self = self\<lparr>wandb_run_name := Some (short @ ''-'' @ method self @ ''-qlora'')\<rparr>
           in Inr self))"

text \<open>
  The keyword arguments of \<open>ExperimentConfig(...)\<close>: \<open>None\<close> is an omitted argument, for
  which the generated \<open>__init__\<close> takes the default or calls the default factory
  (lines 110--120). The default of \<open>wandb_run_name\<close> is Python's \<open>None\<close> itself.
\<close>

record ExperimentConfig_kwargs =
  kw_model :: "ModelConfig option"
  kw_data :: "DataConfig option"
  kw_training :: "TrainingConfig option"
  kw_hf :: "HuggingFaceConfig option"
  kw_seed :: "int option"
  kw_method :: "string option"
  kw_use_wandb :: "bool option"
  kw_wandb_project :: "string option"
  kw_wandb_run_name :: "string option"

definition no_kwargs :: ExperimentConfig_kwargs where
  "no_kwargs =
     \<lparr> kw_model = None, kw_data = None, kw_training = None, kw_hf = None, kw_seed = None,
       kw_method = None, kw_use_wandb = None, kw_wandb_project = None,
       kw_wandb_run_name = None \<rparr>"

definition init_fields :: "ExperimentConfig_kwargs \<Rightarrow> ExperimentConfig" where
  "init_fields kw =
     \<lparr> model = (case kw_model kw of None \<Rightarrow> ModelConfig_default | Some v \<Rightarrow> v),
       data = (case kw_data kw of None \<Rightarrow> DataConfig_default | Some v \<Rightarrow> v),
       training = (case kw_training kw of None \<Rightarrow> TrainingConfig_default | Some v \<Rightarrow> v),
       hf = (case kw_hf kw of None \<Rightarrow> HuggingFaceConfig_default | Some v \<Rightarrow> v),
       seed = (case kw_seed kw of None \<Rightarrow> 42 | Some v \<Rightarrow> v),
       method = (case kw_method kw of None \<Rightarrow> ''ppo'' | Some v \<Rightarrow> v),
       use_wandb = (case kw_use_wandb kw of None \<Rightarrow> True | Some v \<Rightarrow> v),
       wandb_project =
         (case kw_wandb_project kw of None \<Rightarrow> ''codellama-mbpp-finetuning'' | Some v \<Rightarrow> v),
       wandb_run_name = kw_wandb_run_name kw \<rparr>"

text \<open>\<open>ExperimentConfig(**kw)\<close>: the generated \<open>__init__\<close> stores the fields, then calls
  \<open>__post_init__\<close>.\<close>

definition new_ExperimentConfig ::
  "train_import \<Rightarrow> ExperimentConfig_kwargs \<Rightarrow> py_exception + ExperimentConfig" where
  "new_ExperimentConfig tr kw = post_init tr (init_fields kw)"

subsection \<open>The environment overlay\<close>

text \<open>
  \<open>os.environ\<close> is a map from variable names to values. Lines 144--159; the \<open>assert\<close> is
  the statement of an interpreter run without \<open>-O\<close>, where it is executed.
\<close>

definition load_config_from_env ::
  "train_import \<Rightarrow> (string \<rightharpoonup> string) \<Rightarrow> py_exception + ExperimentConfig" where
  "load_config_from_env tr environ =
     (case new_ExperimentConfig tr no_kwargs of
        Inl e \<Rightarrow> Inl e
      | Inr config \<Rightarrow>
          (let config = (case environ ''HF_TOKEN'' of
                           None \<Rightarrow> config
                         | Some v \<Rightarrow> config\<lparr>hf := (hf config)\<lparr>hub_token := Some v\<rparr>\<rparr>);
               config = (case environ ''WANDB_PROJECT'' of
                           None \<Rightarrow> config
                         | Some v \<Rightarrow> config\<lparr>wandb_project := v\<rparr>)
           in case environ ''METHOD'' of
                None \<Rightarrow> Inr config
              | Some v \<Rightarrow>
                  (let config = config\<lparr>method := lower v\<rparr>
                   in if method config \<in> set [''ppo'', ''grpo'']
                      then Inr config
                      else Inl (AssertionError
                             (''Method must be 'ppo' or 'grpo', got '' @ method config)))))"

subsection \<open>Sample behaviours of the external naming function\<close>

text \<open>
  The module \<open>train\<close> is outside this file; these two functions are sample behaviours of
  \<open>extract_model_short_name\<close> at which the results below are evaluated: one that returns
  (the lower-cased name after the ten characters of \<open>codellama/\<close>), one that raises.
\<close>

definition example_extract :: naming_function where
  "example_extract name = Inr (lower (drop 10 name))"

definition raising_extract :: naming_function where
  "raising_extract name = Inl (OtherException ''ValueError'')"

section \<open>Properties\<close>

subsection \<open>Evaluation of the derivation step\<close>

lemma lower_GRPO: "lower ''GRPO'' = ''grpo''"
  by code_simp

lemma lower_bogus: "lower ''bogus'' = ''bogus''"
  by code_simp

lemma model_short_name_unresolved: "model_short_name (Inl ImportError) name = Inr ''codellama-7b''"
  by (simp add: model_short_name_def except_ImportError_def)

lemma model_short_name_returned:
  "naming name = Inr s \<Longrightarrow> model_short_name (Inr naming) name = Inr s"
  by (simp add: model_short_name_def)

lemma post_init_derives:
  "model_short_name tr (model_name (model self)) = Inr s \<Longrightarrow>
   post_init tr self =
     Inr (self\<lparr>training := (training self)
                  \<lparr>output_dir := ''./checkpoints/'' @ s @ ''-'' @ method self @ ''-qlora''\<rparr>,
               hf := (hf self)\<lparr>hub_model_id := s @ ''-'' @ method self @ ''-qlora''\<rparr>,
               wandb_run_name := Some (s @ ''-'' @ method self @ ''-qlora'')\<rparr>)"
  by (simp add: post_init_def Let_def)

lemma post_init_raises:
  "model_short_name tr (model_name (model self)) = Inl e \<Longrightarrow> post_init tr self = Inl e"
  by (simp add: post_init_def)

lemma post_init_returned:
  assumes "post_init tr self = Inr c"
  obtains s where "model_short_name tr (model_name (model self)) = Inr s"
    and "c = self\<lparr>training := (training self)
                  \<lparr>output_dir := ''./checkpoints/'' @ s @ ''-'' @ method self @ ''-qlora''\<rparr>,
               hf := (hf self)\<lparr>hub_model_id := s @ ''-'' @ method self @ ''-qlora''\<rparr>,
               wandb_run_name := Some (s @ ''-'' @ method self @ ''-qlora'')\<rparr>"
proof (cases "model_short_name tr (model_name (model self))")
  case (Inl e)
  with assms show ?thesis by (simp add: post_init_raises)
next
  case (Inr s)
  with assms post_init_derives [OF Inr] that show ?thesis by simp
qed

lemma new_ExperimentConfig_returned:
  assumes "new_ExperimentConfig tr kw = Inr c"
  obtains s where "model_short_name tr (model_name (model (init_fields kw))) = Inr s"
    and "c = (init_fields kw)\<lparr>training := (training (init_fields kw))
                  \<lparr>output_dir := ''./checkpoints/'' @ s @ ''-'' @ method (init_fields kw) @ ''-qlora''\<rparr>,
               hf := (hf (init_fields kw))\<lparr>hub_model_id := s @ ''-'' @ method (init_fields kw) @ ''-qlora''\<rparr>,
               wandb_run_name := Some (s @ ''-'' @ method (init_fields kw) @ ''-qlora'')\<rparr>"
  using assms unfolding new_ExperimentConfig_def by (rule post_init_returned)

lemma new_ExperimentConfig_names:
  assumes "new_ExperimentConfig tr kw = Inr c"
  shows "\<exists>s. model_short_name tr (model_name (model c)) = Inr s
           \<and> output_dir (training c) = ''./checkpoints/'' @ s @ ''-'' @ method c @ ''-qlora''
           \<and> hub_model_id (hf c) = s @ ''-'' @ method c @ ''-qlora''
           \<and> wandb_run_name c = Some (s @ ''-'' @ method c @ ''-qlora'')"
proof -
  from assms obtain s where s: "model_short_name tr (model_name (model (init_fields kw))) = Inr s"
    and c: "c = (init_fields kw)\<lparr>training := (training (init_fields kw))
                  \<lparr>output_dir := ''./checkpoints/'' @ s @ ''-'' @ method (init_fields kw) @ ''-qlora''\<rparr>,
               hf := (hf (init_fields kw))\<lparr>hub_model_id := s @ ''-'' @ method (init_fields kw) @ ''-qlora''\<rparr>,
               wandb_run_name := Some (s @ ''-'' @ method (init_fields kw) @ ''-qlora'')\<rparr>"
    by (rule new_ExperimentConfig_returned)
  from s show ?thesis by (simp add: c)
qed

lemma default_method: "new_ExperimentConfig tr no_kwargs = Inr c0 \<Longrightarrow> method c0 = ''ppo''"
  by (erule new_ExperimentConfig_returned) (simp add: init_fields_def no_kwargs_def)

lemma default_hub_token: "new_ExperimentConfig tr no_kwargs = Inr c0 \<Longrightarrow> hub_token (hf c0) = None"
  by (erule new_ExperimentConfig_returned)
     (simp add: init_fields_def no_kwargs_def HuggingFaceConfig_default_def)

lemma default_wandb_project:
  "new_ExperimentConfig tr no_kwargs = Inr c0 \<Longrightarrow> wandb_project c0 = ''codellama-mbpp-finetuning''"
  by (erule new_ExperimentConfig_returned) (simp add: init_fields_def no_kwargs_def)

subsection \<open>Evaluation of the environment overlay\<close>

text \<open>
  What \<open>load_config_from_env\<close> returns once the default record is constructed: the two
  unconditional overlays of lines 147--152, then the three outcomes of lines 155--157.
\<close>

lemma load_config_from_env_raises:
  "new_ExperimentConfig tr no_kwargs = Inl e \<Longrightarrow> load_config_from_env tr environ = Inl e"
  by (simp add: load_config_from_env_def)

lemma load_config_from_env_no_METHOD:
  assumes "new_ExperimentConfig tr no_kwargs = Inr c0" and "environ ''METHOD'' = None"
  shows "load_config_from_env tr environ =
     Inr (c0\<lparr>hf := (hf c0)\<lparr>hub_token :=
                 (case environ ''HF_TOKEN'' of None \<Rightarrow> hub_token (hf c0) | Some v \<Rightarrow> Some v)\<rparr>,
             wandb_project :=
                 (case environ ''WANDB_PROJECT'' of None \<Rightarrow> wandb_project c0 | Some v \<Rightarrow> v)\<rparr>)"
  using assms by (simp add: load_config_from_env_def Let_def split: option.splits)

lemma load_config_from_env_valid_METHOD:
  assumes "new_ExperimentConfig tr no_kwargs = Inr c0" and "environ ''METHOD'' = Some v"
    and "lower v \<in> set [''ppo'', ''grpo'']"
  shows "load_config_from_env tr environ =
     Inr (c0\<lparr>hf := (hf c0)\<lparr>hub_token :=
                 (case environ ''HF_TOKEN'' of None \<Rightarrow> hub_token (hf c0) | Some v \<Rightarrow> Some v)\<rparr>,
             wandb_project :=
                 (case environ ''WANDB_PROJECT'' of None \<Rightarrow> wandb_project c0 | Some v \<Rightarrow> v),
             method := lower v\<rparr>)"
  using assms by (simp add: load_config_from_env_def Let_def split: option.splits)

lemma load_config_from_env_invalid_METHOD:
  assumes "new_ExperimentConfig tr no_kwargs = Inr c0" and "environ ''METHOD'' = Some v"
    and "lower v \<notin> set [''ppo'', ''grpo'']"
  shows "load_config_from_env tr environ =
     Inl (AssertionError (''Method must be 'ppo' or 'grpo', got '' @ lower v))"
  using assms by (simp add: load_config_from_env_def Let_def split: option.splits)

lemma load_config_from_env_returned:
  assumes "load_config_from_env tr environ = Inr c"
  obtains c0 where "new_ExperimentConfig tr no_kwargs = Inr c0"
    and "c = c0\<lparr>hf := (hf c0)\<lparr>hub_token :=
                 (case environ ''HF_TOKEN'' of None \<Rightarrow> hub_token (hf c0) | Some v \<Rightarrow> Some v)\<rparr>,
             wandb_project :=
                 (case environ ''WANDB_PROJECT'' of None \<Rightarrow> wandb_project c0 | Some v \<Rightarrow> v),
             method := (case environ ''METHOD'' of None \<Rightarrow> method c0 | Some v \<Rightarrow> lower v)\<rparr>"
    and "case environ ''METHOD'' of None \<Rightarrow> True | Some v \<Rightarrow> lower v \<in> set [''ppo'', ''grpo'']"
proof (cases "new_ExperimentConfig tr no_kwargs")
  case (Inl e)
  with assms show ?thesis by (simp add: load_config_from_env_raises)
next
  case (Inr c0)
  let ?d = "c0\<lparr>hf := (hf c0)\<lparr>hub_token :=
                 (case environ ''HF_TOKEN'' of None \<Rightarrow> hub_token (hf c0) | Some v \<Rightarrow> Some v)\<rparr>,
             wandb_project :=
                 (case environ ''WANDB_PROJECT'' of None \<Rightarrow> wandb_project c0 | Some v \<Rightarrow> v)\<rparr>"
  show ?thesis
  proof (cases "environ ''METHOD''")
    case None
    have "load_config_from_env tr environ = Inr ?d"
      using Inr None by (rule load_config_from_env_no_METHOD)
    with assms have "c = ?d" by simp
    then have "c = ?d\<lparr>method := (case environ ''METHOD'' of None \<Rightarrow> method c0 | Some v \<Rightarrow> lower v)\<rparr>"
      by (simp add: None)
    moreover have "case environ ''METHOD'' of None \<Rightarrow> True | Some v \<Rightarrow> lower v \<in> set [''ppo'', ''grpo'']"
      by (simp add: None)
    ultimately show ?thesis using Inr by (rule that [rotated])
  next
    case (Some v)
    show ?thesis
    proof (cases "lower v \<in> set [''ppo'', ''grpo'']")
      case True
      have "load_config_from_env tr environ = Inr (?d\<lparr>method := lower v\<rparr>)"
        using Inr Some True by (rule load_config_from_env_valid_METHOD)
      with assms have "c = ?d\<lparr>method := lower v\<rparr>" by simp
      then have "c = ?d\<lparr>method := (case environ ''METHOD'' of None \<Rightarrow> method c0 | Some v \<Rightarrow> lower v)\<rparr>"
        by (simp add: Some)
      moreover have "case environ ''METHOD'' of None \<Rightarrow> True | Some v \<Rightarrow> lower v \<in> set [''ppo'', ''grpo'']"
        using True by (simp add: Some)
      ultimately show ?thesis using Inr by (rule that [rotated])
    next
      case False
      have "load_config_from_env tr environ =
          Inl (AssertionError (''Method must be 'ppo' or 'grpo', got '' @ lower v))"
        using Inr Some False by (rule load_config_from_env_invalid_METHOD)
      with assms show ?thesis by simp
    qed
  qed
qed

lemma lower_grpo: "lower ''grpo'' = ''grpo''"
  by code_simp

lemma new_ExperimentConfig_unresolved:
  "new_ExperimentConfig (Inl ImportError) kw =
     Inr ((init_fields kw)\<lparr>training := (training (init_fields kw))
             \<lparr>output_dir := ''./checkpoints/'' @ ''codellama-7b'' @ ''-'' @ method (init_fields kw) @ ''-qlora''\<rparr>,
           hf := (hf (init_fields kw))
             \<lparr>hub_model_id := ''codellama-7b'' @ ''-'' @ method (init_fields kw) @ ''-qlora''\<rparr>,
           wandb_run_name := Some (''codellama-7b'' @ ''-'' @ method (init_fields kw) @ ''-qlora'')\<rparr>)"
  unfolding new_ExperimentConfig_def
  by (rule post_init_derives) (rule model_short_name_unresolved)

subsection \<open>When construction raises\<close>

lemma except_ImportError_raises: "(except_ImportError e' = Inl e) = (e' = e \<and> e \<noteq> ImportError)"
  by (cases e') (auto simp add: except_ImportError_def)

lemma model_short_name_raises:
  "(model_short_name tr name = Inl e) =
     (e \<noteq> ImportError \<and> (tr = Inl e \<or> (\<exists>naming. tr = Inr naming \<and> naming name = Inl e)))"
proof (cases tr)
  case (Inl e')
  then show ?thesis by (auto simp add: model_short_name_def except_ImportError_raises)
next
  case (Inr naming)
  then show ?thesis
    by (cases "naming name") (auto simp add: model_short_name_def except_ImportError_raises)
qed

lemma post_init_raises_iff:
  "(post_init tr self = Inl e) = (model_short_name tr (model_name (model self)) = Inl e)"
  by (cases "model_short_name tr (model_name (model self))") (simp_all add: post_init_def Let_def)

subsection \<open>Naming law of the derivation\<close>

text \<open>
  C1. For every model name \<open>M\<close> and every method \<open>m\<close> given at construction (any
  string, so in particular \<open>ppo\<close> and \<open>grpo\<close>), the constructed record has
  \<open>hf.hub_model_id = short(M) + "-" + m + "-qlora"\<close>, \<open>wandb_run_name\<close> the same string
  and \<open>training.output_dir\<close> that string after \<open>./checkpoints/\<close>, where \<open>short(M)\<close> is
  what the naming function returns on \<open>M\<close> when the import binds it, and the literal
  \<open>codellama-7b\<close> when the import fails with \<open>ImportError\<close>.
\<close>

theorem derivation_naming_law:
  "(naming M = Inr s \<longrightarrow>
      (\<exists>c. new_ExperimentConfig (Inr naming)
              (kw\<lparr>kw_model := Some (mc\<lparr>model_name := M\<rparr>), kw_method := Some m\<rparr>) = Inr c
          \<and> model_name (model c) = M \<and> method c = m
          \<and> hub_model_id (hf c) = s @ ''-'' @ m @ ''-qlora''
          \<and> wandb_run_name c = Some (s @ ''-'' @ m @ ''-qlora'')
          \<and> output_dir (training c) = ''./checkpoints/'' @ s @ ''-'' @ m @ ''-qlora''))
   \<and> (\<exists>c. new_ExperimentConfig (Inl ImportError)
              (kw\<lparr>kw_model := Some (mc\<lparr>model_name := M\<rparr>), kw_method := Some m\<rparr>) = Inr c
          \<and> model_name (model c) = M \<and> method c = m
          \<and> hub_model_id (hf c) = ''codellama-7b'' @ ''-'' @ m @ ''-qlora''
          \<and> wandb_run_name c = Some (''codellama-7b'' @ ''-'' @ m @ ''-qlora'')
          \<and> output_dir (training c) = ''./checkpoints/'' @ ''codellama-7b'' @ ''-'' @ m @ ''-qlora'')"
proof (intro conjI impI)
  let ?kw = "kw\<lparr>kw_model := Some (mc\<lparr>model_name := M\<rparr>), kw_method := Some m\<rparr>"
  have M: "model_name (model (init_fields ?kw)) = M" and m: "method (init_fields ?kw) = m"
    by (simp_all add: init_fields_def)
  {
    fix tr s
    assume "model_short_name tr M = Inr s"
    then have "model_short_name tr (model_name (model (init_fields ?kw))) = Inr s"
      by (simp only: M)
    from post_init_derives [OF this]
    have "\<exists>c. new_ExperimentConfig tr ?kw = Inr c
          \<and> model_name (model c) = M \<and> method c = m
          \<and> hub_model_id (hf c) = s @ ''-'' @ m @ ''-qlora''
          \<and> wandb_run_name c = Some (s @ ''-'' @ m @ ''-qlora'')
          \<and> output_dir (training c) = ''./checkpoints/'' @ s @ ''-'' @ m @ ''-qlora''"
      by (simp add: new_ExperimentConfig_def M m)
  }
  note derived = this
  show "\<exists>c. new_ExperimentConfig (Inr naming) ?kw = Inr c
          \<and> model_name (model c) = M \<and> method c = m
          \<and> hub_model_id (hf c) = s @ ''-'' @ m @ ''-qlora''
          \<and> wandb_run_name c = Some (s @ ''-'' @ m @ ''-qlora'')
          \<and> output_dir (training c) = ''./checkpoints/'' @ s @ ''-'' @ m @ ''-qlora''"
    if "naming M = Inr s"
    using derived [of "Inr naming" s] that by (simp only: model_short_name_returned)
  show "\<exists>c. new_ExperimentConfig (Inl ImportError) ?kw = Inr c
          \<and> model_name (model c) = M \<and> method c = m
          \<and> hub_model_id (hf c) = ''codellama-7b'' @ ''-'' @ m @ ''-qlora''
          \<and> wandb_run_name c = Some (''codellama-7b'' @ ''-'' @ m @ ''-qlora'')
          \<and> output_dir (training c) = ''./checkpoints/'' @ ''codellama-7b'' @ ''-'' @ m @ ''-qlora''"
    using derived [OF model_short_name_unresolved] .
qed

theorem derivation_naming_law_witness:
  "example_extract ''codellama/CodeLlama-7b-Python-hf'' = Inr ''codellama-7b-python-hf''
   \<and> (\<exists>c. new_ExperimentConfig (Inr example_extract)
              (no_kwargs\<lparr>kw_model := Some (ModelConfig_default
                   \<lparr>model_name := ''codellama/CodeLlama-7b-Python-hf''\<rparr>),
                 kw_method := Some ''grpo''\<rparr>) = Inr c
          \<and> hub_model_id (hf c) = ''codellama-7b-python-hf-grpo-qlora''
          \<and> wandb_run_name c = Some ''codellama-7b-python-hf-grpo-qlora''
          \<and> output_dir (training c) = ''./checkpoints/codellama-7b-python-hf-grpo-qlora'')"
proof -
  have h: "example_extract ''codellama/CodeLlama-7b-Python-hf'' = Inr ''codellama-7b-python-hf''"
    by code_simp
  from derivation_naming_law [where naming = example_extract
      and M = "''codellama/CodeLlama-7b-Python-hf''" and s = "''codellama-7b-python-hf''"
      and kw = no_kwargs and mc = ModelConfig_default and m = "''grpo''"] h
  show ?thesis by auto
qed

subsection \<open>The names after the overlay\<close>

text \<open>
  C2. The claim is that \<open>training.output_dir\<close>, \<open>hf.hub_model_id\<close> and \<open>wandb_run_name\<close>
  always spell the record's current \<open>method\<close>, also after \<open>load_config_from_env\<close>. With
  \<open>METHOD=grpo\<close> in the environment and the module \<open>train\<close> absent, the returned record has
  \<open>method = "grpo"\<close> and the three names of the default method \<open>ppo\<close>; constructing with
  \<open>method="grpo"\<close> under the same import gives the three names with \<open>grpo\<close>.
\<close>

theorem overlay_names_stale_at_grpo:
  "map_sum id (\<lambda>c. (method c, output_dir (training c), hub_model_id (hf c), wandb_run_name c))
     (load_config_from_env (Inl ImportError) [''METHOD'' \<mapsto> ''grpo''])
   = Inr (''grpo'', ''./checkpoints/codellama-7b-ppo-qlora'', ''codellama-7b-ppo-qlora'',
          Some ''codellama-7b-ppo-qlora'')
   \<and> map_sum id (\<lambda>c. (method c, output_dir (training c), hub_model_id (hf c), wandb_run_name c))
     (new_ExperimentConfig (Inl ImportError) (no_kwargs\<lparr>kw_method := Some ''grpo''\<rparr>))
   = Inr (''grpo'', ''./checkpoints/codellama-7b-grpo-qlora'', ''codellama-7b-grpo-qlora'',
          Some ''codellama-7b-grpo-qlora'')"
proof -
  have c0: "new_ExperimentConfig (Inl ImportError) no_kwargs =
      Inr ((init_fields no_kwargs)\<lparr>training := (training (init_fields no_kwargs))
             \<lparr>output_dir := ''./checkpoints/'' @ ''codellama-7b'' @ ''-'' @ method (init_fields no_kwargs) @ ''-qlora''\<rparr>,
           hf := (hf (init_fields no_kwargs))
             \<lparr>hub_model_id := ''codellama-7b'' @ ''-'' @ method (init_fields no_kwargs) @ ''-qlora''\<rparr>,
           wandb_run_name := Some (''codellama-7b'' @ ''-'' @ method (init_fields no_kwargs) @ ''-qlora'')\<rparr>)"
    by (rule new_ExperimentConfig_unresolved)
  have m: "[''METHOD'' \<mapsto> ''grpo''] ''METHOD'' = Some ''grpo''" by simp
  have ok: "lower ''grpo'' \<in> set [''ppo'', ''grpo'']" by (simp add: lower_grpo)
  show ?thesis
    by (simp add: load_config_from_env_valid_METHOD [where environ = "[''METHOD'' \<mapsto> ''grpo'']", OF c0 m ok]
        new_ExperimentConfig_unresolved lower_grpo init_fields_def no_kwargs_def)
qed

subsection \<open>Validation of METHOD\<close>

text \<open>
  C3. When \<open>METHOD\<close> is set and the default record has been constructed, the overlay
  stores the lower-cased value in \<open>method\<close>: if that value is \<open>ppo\<close> or \<open>grpo\<close> the call
  returns a record whose \<open>method\<close> is the lower-cased value, otherwise it raises an
  \<open>AssertionError\<close> whose message ends with the lower-cased value. Nothing in
  \<open>load_config_from_env\<close> catches that error.
\<close>

theorem method_overlay_validation:
  assumes "new_ExperimentConfig tr no_kwargs = Inr c0" and "environ ''METHOD'' = Some v"
  shows "(lower v \<in> set [''ppo'', ''grpo''] \<longrightarrow>
            (\<exists>c. load_config_from_env tr environ = Inr c \<and> method c = lower v))
       \<and> (lower v \<notin> set [''ppo'', ''grpo''] \<longrightarrow>
            load_config_from_env tr environ =
              Inl (AssertionError (''Method must be 'ppo' or 'grpo', got '' @ lower v)))"
proof (intro conjI impI)
  assume ok: "lower v \<in> set [''ppo'', ''grpo'']"
  from load_config_from_env_valid_METHOD [where environ = environ, OF assms ok]
  show "\<exists>c. load_config_from_env tr environ = Inr c \<and> method c = lower v"
    by simp
next
  assume bad: "lower v \<notin> set [''ppo'', ''grpo'']"
  from assms bad
  show "load_config_from_env tr environ =
      Inl (AssertionError (''Method must be 'ppo' or 'grpo', got '' @ lower v))"
    by (rule load_config_from_env_invalid_METHOD)
qed

theorem method_overlay_validation_witness:
  "(\<exists>c0. new_ExperimentConfig (Inl ImportError) no_kwargs = Inr c0)
   \<and> [''METHOD'' \<mapsto> ''GRPO''] ''METHOD'' = Some ''GRPO''
   \<and> lower ''GRPO'' \<in> set [''ppo'', ''grpo'']
   \<and> (\<exists>c. load_config_from_env (Inl ImportError) [''METHOD'' \<mapsto> ''GRPO''] = Inr c
          \<and> method c = ''grpo'')
   \<and> [''METHOD'' \<mapsto> ''bogus''] ''METHOD'' = Some ''bogus''
   \<and> lower ''bogus'' \<notin> set [''ppo'', ''grpo'']
   \<and> load_config_from_env (Inl ImportError) [''METHOD'' \<mapsto> ''bogus''] =
        Inl (AssertionError ''Method must be 'ppo' or 'grpo', got bogus'')"
proof -
  obtain c0 where c0: "new_ExperimentConfig (Inl ImportError) no_kwargs = Inr c0"
    using new_ExperimentConfig_unresolved by blast
  have g: "[''METHOD'' \<mapsto> ''GRPO''] ''METHOD'' = Some ''GRPO''"
    and b: "[''METHOD'' \<mapsto> ''bogus''] ''METHOD'' = Some ''bogus''"
    by simp_all
  from method_overlay_validation [where environ = "[''METHOD'' \<mapsto> ''GRPO'']", OF c0 g]
    method_overlay_validation [where environ = "[''METHOD'' \<mapsto> ''bogus'']", OF c0 b] c0
  show ?thesis by (simp add: lower_GRPO lower_bogus)
qed

subsection \<open>The overlay does not derive the names again\<close>

text \<open>
  C4. When \<open>METHOD\<close> is set to a value whose lower-casing is \<open>grpo\<close>, the returned record
  has \<open>method = "grpo"\<close>, while \<open>training.output_dir\<close>, \<open>hf.hub_model_id\<close> and
  \<open>wandb_run_name\<close> are the ones of the constructed default record and spell the default
  method \<open>ppo\<close>.
\<close>

theorem overlay_keeps_construction_names:
  assumes "new_ExperimentConfig tr no_kwargs = Inr c0" and "environ ''METHOD'' = Some v"
    and "lower v = ''grpo''"
  shows "\<exists>c s. load_config_from_env tr environ = Inr c
           \<and> method c = ''grpo'' \<and> method c0 = ''ppo''
           \<and> training c = training c0
           \<and> hub_model_id (hf c) = hub_model_id (hf c0)
           \<and> wandb_run_name c = wandb_run_name c0
           \<and> model_short_name tr (model_name (model c)) = Inr s
           \<and> output_dir (training c) = ''./checkpoints/'' @ s @ ''-ppo-qlora''
           \<and> hub_model_id (hf c) = s @ ''-ppo-qlora''
           \<and> wandb_run_name c = Some (s @ ''-ppo-qlora'')"
proof -
  from assms(3) have ok: "lower v \<in> set [''ppo'', ''grpo'']" by simp
  note ret = load_config_from_env_valid_METHOD [where environ = environ, OF assms(1,2) ok]
  from new_ExperimentConfig_names [OF assms(1)] default_method [OF assms(1)]
  obtain s where s: "model_short_name tr (model_name (model c0)) = Inr s"
    and names: "output_dir (training c0) = ''./checkpoints/'' @ s @ ''-ppo-qlora''"
      "hub_model_id (hf c0) = s @ ''-ppo-qlora''"
      "wandb_run_name c0 = Some (s @ ''-ppo-qlora'')"
    by auto
  show ?thesis
    using s names default_method [OF assms(1)] by (simp add: ret assms(3))
qed

theorem overlay_keeps_construction_names_witness:
  "(\<exists>c0. new_ExperimentConfig (Inl ImportError) no_kwargs = Inr c0)
   \<and> [''METHOD'' \<mapsto> ''GRPO''] ''METHOD'' = Some ''GRPO''
   \<and> lower ''GRPO'' = ''grpo''
   \<and> (\<exists>c. load_config_from_env (Inl ImportError) [''METHOD'' \<mapsto> ''GRPO''] = Inr c
          \<and> method c = ''grpo''
          \<and> output_dir (training c) = ''./checkpoints/codellama-7b-ppo-qlora''
          \<and> hub_model_id (hf c) = ''codellama-7b-ppo-qlora''
          \<and> wandb_run_name c = Some ''codellama-7b-ppo-qlora'')"
proof -
  obtain c0 where c0: "new_ExperimentConfig (Inl ImportError) no_kwargs = Inr c0"
    using new_ExperimentConfig_unresolved by blast
  have g: "[''METHOD'' \<mapsto> ''GRPO''] ''METHOD'' = Some ''GRPO''"
    by simp
  from overlay_keeps_construction_names
      [where environ = "[''METHOD'' \<mapsto> ''GRPO'']", OF c0 g lower_GRPO] c0
  show ?thesis by (auto simp add: lower_GRPO model_short_name_unresolved)
qed

subsection \<open>The fallback name\<close>

text \<open>
  C5. When the import of the naming function fails with \<open>ImportError\<close>, the short name is
  the literal \<open>codellama-7b\<close> for every model name, and construction derives all three
  fields from it and the method alone.
\<close>

theorem fallback_short_name:
  "model_short_name (Inl ImportError) M = Inr ''codellama-7b''
   \<and> (\<exists>c. new_ExperimentConfig (Inl ImportError) (kw\<lparr>kw_model := Some (mc\<lparr>model_name := M\<rparr>)\<rparr>) = Inr c
          \<and> model_name (model c) = M
          \<and> method c = (case kw_method kw of None \<Rightarrow> ''ppo'' | Some m \<Rightarrow> m)
          \<and> output_dir (training c) = ''./checkpoints/codellama-7b-'' @ method c @ ''-qlora''
          \<and> hub_model_id (hf c) = ''codellama-7b-'' @ method c @ ''-qlora''
          \<and> wandb_run_name c = Some (''codellama-7b-'' @ method c @ ''-qlora''))"
  by (simp add: model_short_name_unresolved new_ExperimentConfig_unresolved init_fields_def)

subsection \<open>Supplied names do not survive construction\<close>

text \<open>
  C6. Whatever the caller supplies for \<open>training.output_dir\<close>, \<open>hf.hub_model_id\<close> and
  \<open>wandb_run_name\<close>, a construction that returns has the three derived strings in these
  fields, and it returns the very same record for any other supplied values of the three.
\<close>

theorem supplied_names_overwritten:
  assumes "new_ExperimentConfig tr
             (kw\<lparr>kw_training := Some (t\<lparr>output_dir := x\<rparr>),
                 kw_hf := Some (h\<lparr>hub_model_id := y\<rparr>),
                 kw_wandb_run_name := z\<rparr>) = Inr c"
  shows "(\<exists>s. model_short_name tr (model_name (model c)) = Inr s
            \<and> output_dir (training c) = ''./checkpoints/'' @ s @ ''-'' @ method c @ ''-qlora''
            \<and> hub_model_id (hf c) = s @ ''-'' @ method c @ ''-qlora''
            \<and> wandb_run_name c = Some (s @ ''-'' @ method c @ ''-qlora''))
       \<and> new_ExperimentConfig tr
             (kw\<lparr>kw_training := Some (t\<lparr>output_dir := x'\<rparr>),
                 kw_hf := Some (h\<lparr>hub_model_id := y'\<rparr>),
                 kw_wandb_run_name := z'\<rparr>) = Inr c"
proof
  from assms show "\<exists>s. model_short_name tr (model_name (model c)) = Inr s
            \<and> output_dir (training c) = ''./checkpoints/'' @ s @ ''-'' @ method c @ ''-qlora''
            \<and> hub_model_id (hf c) = s @ ''-'' @ method c @ ''-qlora''
            \<and> wandb_run_name c = Some (s @ ''-'' @ method c @ ''-qlora'')"
    by (rule new_ExperimentConfig_names)
next
  let ?kw = "kw\<lparr>kw_training := Some (t\<lparr>output_dir := x\<rparr>),
                 kw_hf := Some (h\<lparr>hub_model_id := y\<rparr>), kw_wandb_run_name := z\<rparr>"
  let ?kw' = "kw\<lparr>kw_training := Some (t\<lparr>output_dir := x'\<rparr>),
                 kw_hf := Some (h\<lparr>hub_model_id := y'\<rparr>), kw_wandb_run_name := z'\<rparr>"
  from assms obtain s where s: "model_short_name tr (model_name (model (init_fields ?kw))) = Inr s"
    and c: "c = (init_fields ?kw)\<lparr>training := (training (init_fields ?kw))
                  \<lparr>output_dir := ''./checkpoints/'' @ s @ ''-'' @ method (init_fields ?kw) @ ''-qlora''\<rparr>,
               hf := (hf (init_fields ?kw))\<lparr>hub_model_id := s @ ''-'' @ method (init_fields ?kw) @ ''-qlora''\<rparr>,
               wandb_run_name := Some (s @ ''-'' @ method (init_fields ?kw) @ ''-qlora'')\<rparr>"
    by (rule new_ExperimentConfig_returned)
  have "model (init_fields ?kw') = model (init_fields ?kw)"
    by (simp add: init_fields_def)
  with s have "model_short_name tr (model_name (model (init_fields ?kw'))) = Inr s"
    by simp
  from post_init_derives [OF this]
  show "new_ExperimentConfig tr ?kw' = Inr c"
    unfolding new_ExperimentConfig_def c by (simp add: init_fields_def)
qed

theorem supplied_names_overwritten_witness:
  "(\<exists>c. new_ExperimentConfig (Inl ImportError)
          (no_kwargs\<lparr>kw_training := Some (TrainingConfig_default\<lparr>output_dir := ''/data/run1''\<rparr>),
                    kw_hf := Some (HuggingFaceConfig_default\<lparr>hub_model_id := ''me/my-model''\<rparr>),
                    kw_wandb_run_name := Some ''my-run''\<rparr>) = Inr c
        \<and> output_dir (training c) = ''./checkpoints/codellama-7b-ppo-qlora''
        \<and> hub_model_id (hf c) = ''codellama-7b-ppo-qlora''
        \<and> wandb_run_name c = Some ''codellama-7b-ppo-qlora''
        \<and> new_ExperimentConfig (Inl ImportError)
          (no_kwargs\<lparr>kw_training := Some (TrainingConfig_default\<lparr>output_dir := ''./checkpoints''\<rparr>),
                    kw_hf := Some (HuggingFaceConfig_default\<lparr>hub_model_id := ''other''\<rparr>),
                    kw_wandb_run_name := None\<rparr>) = Inr c)"
proof -
  let ?kw = "no_kwargs\<lparr>kw_training := Some (TrainingConfig_default\<lparr>output_dir := ''/data/run1''\<rparr>),
                    kw_hf := Some (HuggingFaceConfig_default\<lparr>hub_model_id := ''me/my-model''\<rparr>),
                    kw_wandb_run_name := Some ''my-run''\<rparr>"
  obtain c where c: "new_ExperimentConfig (Inl ImportError) ?kw = Inr c"
    using new_ExperimentConfig_unresolved by blast
  have m: "method c = ''ppo''"
    using c by (elim new_ExperimentConfig_returned) (simp add: init_fields_def no_kwargs_def)
  from supplied_names_overwritten
      [OF c, where x' = "''./checkpoints''" and y' = "''other''" and z' = None] c m
  show ?thesis by (auto simp add: model_short_name_unresolved)
qed

subsection \<open>Token and project from the environment\<close>

text \<open>
  C7. A record returned by \<open>load_config_from_env\<close> has \<open>hf.hub_token\<close> equal to the value of
  \<open>HF_TOKEN\<close> when it is set and \<open>None\<close> when it is not, and \<open>wandb_project\<close> equal to the
  value of \<open>WANDB_PROJECT\<close> when it is set and \<open>codellama-mbpp-finetuning\<close> when it is not.
  The call does return when the default record is constructed and \<open>METHOD\<close> is absent or
  lower-cases to \<open>ppo\<close> or \<open>grpo\<close>.
\<close>

theorem overlay_token_and_project:
  "(load_config_from_env tr environ = Inr c \<longrightarrow>
       hub_token (hf c) = environ ''HF_TOKEN''
     \<and> wandb_project c =
         (case environ ''WANDB_PROJECT'' of None \<Rightarrow> ''codellama-mbpp-finetuning'' | Some v \<Rightarrow> v))
   \<and> (new_ExperimentConfig tr no_kwargs = Inr c0
        \<and> (case environ ''METHOD'' of None \<Rightarrow> True | Some v \<Rightarrow> lower v \<in> set [''ppo'', ''grpo''])
      \<longrightarrow> (\<exists>c'. load_config_from_env tr environ = Inr c'))"
proof (intro conjI impI)
  assume "load_config_from_env tr environ = Inr c"
  then obtain d where d: "new_ExperimentConfig tr no_kwargs = Inr d"
    and c: "c = d\<lparr>hf := (hf d)\<lparr>hub_token :=
                 (case environ ''HF_TOKEN'' of None \<Rightarrow> hub_token (hf d) | Some v \<Rightarrow> Some v)\<rparr>,
             wandb_project :=
                 (case environ ''WANDB_PROJECT'' of None \<Rightarrow> wandb_project d | Some v \<Rightarrow> v),
             method := (case environ ''METHOD'' of None \<Rightarrow> method d | Some v \<Rightarrow> lower v)\<rparr>"
    by (rule load_config_from_env_returned)
  show "hub_token (hf c) = environ ''HF_TOKEN''"
    by (simp add: c default_hub_token [OF d] split: option.split)
  show "wandb_project c =
      (case environ ''WANDB_PROJECT'' of None \<Rightarrow> ''codellama-mbpp-finetuning'' | Some v \<Rightarrow> v)"
    by (simp add: c default_wandb_project [OF d] split: option.split)
next
  assume a: "new_ExperimentConfig tr no_kwargs = Inr c0
     \<and> (case environ ''METHOD'' of None \<Rightarrow> True | Some v \<Rightarrow> lower v \<in> set [''ppo'', ''grpo''])"
  then have c0: "new_ExperimentConfig tr no_kwargs = Inr c0" ..
  show "\<exists>c'. load_config_from_env tr environ = Inr c'"
  proof (cases "environ ''METHOD''")
    case None
    from load_config_from_env_no_METHOD [where environ = environ, OF c0 None]
    show ?thesis by simp
  next
    case (Some v)
    with a have "lower v \<in> set [''ppo'', ''grpo'']" by simp
    from load_config_from_env_valid_METHOD [where environ = environ, OF c0 Some this]
    show ?thesis by simp
  qed
qed

theorem overlay_token_and_project_witness:
  "(\<exists>c. load_config_from_env (Inl ImportError) [''HF_TOKEN'' \<mapsto> ''abc123''] = Inr c
        \<and> hub_token (hf c) = Some ''abc123''
        \<and> wandb_project c = ''codellama-mbpp-finetuning'')
   \<and> (\<exists>c. load_config_from_env (Inl ImportError) [''WANDB_PROJECT'' \<mapsto> ''my-project''] = Inr c
        \<and> hub_token (hf c) = None
        \<and> wandb_project c = ''my-project'')"
proof -
  obtain c0 where c0: "new_ExperimentConfig (Inl ImportError) no_kwargs = Inr c0"
    using new_ExperimentConfig_unresolved by blast
  have "\<exists>c. load_config_from_env (Inl ImportError) [''HF_TOKEN'' \<mapsto> ''abc123''] = Inr c"
    using overlay_token_and_project
      [where tr = "Inl ImportError" and environ = "[''HF_TOKEN'' \<mapsto> ''abc123'']" and ?c0.0 = c0]
      c0 by simp
  then obtain c1 where c1: "load_config_from_env (Inl ImportError) [''HF_TOKEN'' \<mapsto> ''abc123''] = Inr c1" ..
  have "\<exists>c. load_config_from_env (Inl ImportError) [''WANDB_PROJECT'' \<mapsto> ''my-project''] = Inr c"
    using overlay_token_and_project
      [where tr = "Inl ImportError" and environ = "[''WANDB_PROJECT'' \<mapsto> ''my-project'']" and ?c0.0 = c0]
      c0 by simp
  then obtain c2 where c2: "load_config_from_env (Inl ImportError) [''WANDB_PROJECT'' \<mapsto> ''my-project''] = Inr c2" ..
  from overlay_token_and_project
      [where tr = "Inl ImportError" and environ = "[''HF_TOKEN'' \<mapsto> ''abc123'']" and c = c1]
    overlay_token_and_project
      [where tr = "Inl ImportError" and environ = "[''WANDB_PROJECT'' \<mapsto> ''my-project'']" and c = c2]
    c1 c2
  show ?thesis by simp
qed

subsection \<open>Which errors construction surfaces\<close>

text \<open>
  C8, as amended. Construction raises exactly when the import statement, or the call of the
  naming function on the model name, raises an exception that is not an \<open>ImportError\<close>, and
  that exception reaches the caller. An \<open>ImportError\<close> from the import or from the call is
  caught and the short name is the fallback \<open>codellama-7b\<close>.
\<close>

theorem construction_error_surface:
  "(new_ExperimentConfig tr kw = Inl e) =
     (e \<noteq> ImportError
      \<and> (tr = Inl e
         \<or> (\<exists>naming. tr = Inr naming \<and> naming (model_name (model (init_fields kw))) = Inl e)))
   \<and> model_short_name (Inl ImportError) name = Inr ''codellama-7b''
   \<and> model_short_name (Inr (\<lambda>n. Inl ImportError)) name = Inr ''codellama-7b''"
  by (simp add: new_ExperimentConfig_def post_init_raises_iff model_short_name_raises
      model_short_name_unresolved)
     (simp add: model_short_name_def except_ImportError_def)

text \<open>
  C8 as stated says that no behaviour of the naming function makes construction raise. A
  naming function that raises \<open>ValueError\<close> does: \<open>except ImportError\<close> does not catch it.
\<close>

theorem construction_raises_counterexample:
  "new_ExperimentConfig (Inr raising_extract) no_kwargs = Inl (OtherException ''ValueError'')"
  by (simp add: new_ExperimentConfig_def post_init_def model_short_name_def raising_extract_def
      except_ImportError_def)

subsection \<open>Frame of the overlay\<close>

text \<open>
  C9. A record returned by \<open>load_config_from_env\<close> differs from the constructed default
  record in at most \<open>hf.hub_token\<close>, \<open>wandb_project\<close> and \<open>method\<close>: putting these three back
  gives the default record. Two environments that agree on \<open>HF_TOKEN\<close>, \<open>WANDB_PROJECT\<close> and
  \<open>METHOD\<close> give the same outcome.
\<close>

theorem overlay_frame:
  "(load_config_from_env tr environ = Inr c \<longrightarrow>
      (\<exists>c0. new_ExperimentConfig tr no_kwargs = Inr c0
         \<and> c\<lparr>hf := (hf c)\<lparr>hub_token := hub_token (hf c0)\<rparr>,
              wandb_project := wandb_project c0,
              method := method c0\<rparr> = c0))
   \<and> (environ' ''HF_TOKEN'' = environ ''HF_TOKEN''
        \<and> environ' ''WANDB_PROJECT'' = environ ''WANDB_PROJECT''
        \<and> environ' ''METHOD'' = environ ''METHOD''
      \<longrightarrow> load_config_from_env tr environ' = load_config_from_env tr environ)"
proof (intro conjI impI)
  assume "load_config_from_env tr environ = Inr c"
  then obtain d where d: "new_ExperimentConfig tr no_kwargs = Inr d"
    and c: "c = d\<lparr>hf := (hf d)\<lparr>hub_token :=
                 (case environ ''HF_TOKEN'' of None \<Rightarrow> hub_token (hf d) | Some v \<Rightarrow> Some v)\<rparr>,
             wandb_project :=
                 (case environ ''WANDB_PROJECT'' of None \<Rightarrow> wandb_project d | Some v \<Rightarrow> v),
             method := (case environ ''METHOD'' of None \<Rightarrow> method d | Some v \<Rightarrow> lower v)\<rparr>"
    by (rule load_config_from_env_returned)
  have "c\<lparr>hf := (hf c)\<lparr>hub_token := hub_token (hf d)\<rparr>,
          wandb_project := wandb_project d, method := method d\<rparr> = d"
    by (simp add: c)
  with d show "\<exists>c0. new_ExperimentConfig tr no_kwargs = Inr c0
         \<and> c\<lparr>hf := (hf c)\<lparr>hub_token := hub_token (hf c0)\<rparr>,
              wandb_project := wandb_project c0,
              method := method c0\<rparr> = c0"
    by blast
next
  assume "environ' ''HF_TOKEN'' = environ ''HF_TOKEN''
        \<and> environ' ''WANDB_PROJECT'' = environ ''WANDB_PROJECT''
        \<and> environ' ''METHOD'' = environ ''METHOD''"
  then have same: "environ' ''HF_TOKEN'' = environ ''HF_TOKEN''"
    "environ' ''WANDB_PROJECT'' = environ ''WANDB_PROJECT''"
    "environ' ''METHOD'' = environ ''METHOD''"
    by simp_all
  show "load_config_from_env tr environ' = load_config_from_env tr environ"
    unfolding load_config_from_env_def same by (rule refl)
qed

theorem overlay_frame_witness:
  "(\<exists>c c0. load_config_from_env (Inl ImportError)
              [''HF_TOKEN'' \<mapsto> ''abc123'', ''METHOD'' \<mapsto> ''GRPO''] = Inr c
        \<and> new_ExperimentConfig (Inl ImportError) no_kwargs = Inr c0
        \<and> c\<lparr>hf := (hf c)\<lparr>hub_token := hub_token (hf c0)\<rparr>,
             wandb_project := wandb_project c0,
             method := method c0\<rparr> = c0)
   \<and> load_config_from_env (Inl ImportError)
        [''HF_TOKEN'' \<mapsto> ''abc123'', ''METHOD'' \<mapsto> ''GRPO'', ''SEED'' \<mapsto> ''7'']
     = load_config_from_env (Inl ImportError) [''HF_TOKEN'' \<mapsto> ''abc123'', ''METHOD'' \<mapsto> ''GRPO'']"
proof -
  let ?env = "[''HF_TOKEN'' \<mapsto> ''abc123'', ''METHOD'' \<mapsto> ''GRPO'']"
  let ?env' = "[''HF_TOKEN'' \<mapsto> ''abc123'', ''METHOD'' \<mapsto> ''GRPO'', ''SEED'' \<mapsto> ''7'']"
  obtain c0 where c0: "new_ExperimentConfig (Inl ImportError) no_kwargs = Inr c0"
    using new_ExperimentConfig_unresolved by blast
  have "?env ''METHOD'' = Some ''GRPO''" by simp
  from load_config_from_env_valid_METHOD [where environ = ?env, OF c0 this]
  obtain c where c: "load_config_from_env (Inl ImportError) ?env = Inr c"
    by (simp add: lower_GRPO)
  note law = overlay_frame [where tr = "Inl ImportError" and environ = ?env and c = c
      and environ' = ?env']
  have "?env' ''HF_TOKEN'' = ?env ''HF_TOKEN'' \<and> ?env' ''WANDB_PROJECT'' = ?env ''WANDB_PROJECT''
      \<and> ?env' ''METHOD'' = ?env ''METHOD''"
    by simp
  with law c show ?thesis by blast
qed

subsection \<open>Mutual consistency of the three names\<close>

text \<open>
  C10. Every record returned by a construction, with any arguments, and every record
  returned by \<open>load_config_from_env\<close> has \<open>wandb_run_name = hf.hub_model_id\<close> and
  \<open>training.output_dir = "./checkpoints/" + hf.hub_model_id\<close>, also when \<open>method\<close> no longer
  is the method the names spell.
\<close>

theorem names_mutually_consistent:
  "(new_ExperimentConfig tr kw = Inr c \<longrightarrow>
       wandb_run_name c = Some (hub_model_id (hf c))
     \<and> output_dir (training c) = ''./checkpoints/'' @ hub_model_id (hf c))
   \<and> (load_config_from_env tr environ = Inr c' \<longrightarrow>
       wandb_run_name c' = Some (hub_model_id (hf c'))
     \<and> output_dir (training c') = ''./checkpoints/'' @ hub_model_id (hf c'))"
proof (intro conjI impI)
  assume "new_ExperimentConfig tr kw = Inr c"
  from new_ExperimentConfig_names [OF this]
  show "wandb_run_name c = Some (hub_model_id (hf c))"
    and "output_dir (training c) = ''./checkpoints/'' @ hub_model_id (hf c)"
    by auto
next
  assume "load_config_from_env tr environ = Inr c'"
  then obtain d where d: "new_ExperimentConfig tr no_kwargs = Inr d"
    and c: "c' = d\<lparr>hf := (hf d)\<lparr>hub_token :=
                 (case environ ''HF_TOKEN'' of None \<Rightarrow> hub_token (hf d) | Some v \<Rightarrow> Some v)\<rparr>,
             wandb_project :=
                 (case environ ''WANDB_PROJECT'' of None \<Rightarrow> wandb_project d | Some v \<Rightarrow> v),
             method := (case environ ''METHOD'' of None \<Rightarrow> method d | Some v \<Rightarrow> lower v)\<rparr>"
    by (rule load_config_from_env_returned)
  from new_ExperimentConfig_names [OF d]
  show "wandb_run_name c' = Some (hub_model_id (hf c'))"
    and "output_dir (training c') = ''./checkpoints/'' @ hub_model_id (hf c')"
    by (auto simp add: c)
qed

theorem names_mutually_consistent_witness:
  "(\<exists>c. new_ExperimentConfig (Inr example_extract)
           (no_kwargs\<lparr>kw_method := Some ''grpo'', kw_wandb_run_name := Some ''my-run''\<rparr>) = Inr c
        \<and> wandb_run_name c = Some (hub_model_id (hf c))
        \<and> output_dir (training c) = ''./checkpoints/'' @ hub_model_id (hf c))
   \<and> (\<exists>c'. load_config_from_env (Inl ImportError) [''METHOD'' \<mapsto> ''GRPO''] = Inr c'
        \<and> method c' = ''grpo''
        \<and> hub_model_id (hf c') = ''codellama-7b-ppo-qlora''
        \<and> wandb_run_name c' = Some (hub_model_id (hf c'))
        \<and> output_dir (training c') = ''./checkpoints/'' @ hub_model_id (hf c'))"
proof -
  let ?kw = "no_kwargs\<lparr>kw_method := Some ''grpo'', kw_wandb_run_name := Some ''my-run''\<rparr>"
  let ?env = "[''METHOD'' \<mapsto> ''GRPO'']"
  have "model_short_name (Inr example_extract) (model_name (model (init_fields ?kw)))
      = Inr (lower (drop 10 (model_name (model (init_fields ?kw)))))"
    by (simp add: model_short_name_def example_extract_def)
  from post_init_derives [OF this]
  obtain c where c: "new_ExperimentConfig (Inr example_extract) ?kw = Inr c"
    by (simp add: new_ExperimentConfig_def)
  obtain c0 where c0: "new_ExperimentConfig (Inl ImportError) no_kwargs = Inr c0"
    and id0: "hub_model_id (hf c0) = ''codellama-7b-ppo-qlora''"
    using new_ExperimentConfig_unresolved [of no_kwargs]
    by (simp add: init_fields_def no_kwargs_def)
  have "?env ''METHOD'' = Some ''GRPO''" by simp
  from load_config_from_env_valid_METHOD [where environ = ?env, OF c0 this]
  obtain c' where c': "load_config_from_env (Inl ImportError) ?env = Inr c'"
    and m: "method c' = ''grpo''" and id: "hub_model_id (hf c') = ''codellama-7b-ppo-qlora''"
    by (simp add: lower_GRPO id0)
  from names_mutually_consistent [where tr = "Inr example_extract" and kw = ?kw and c = c]
    names_mutually_consistent [where tr = "Inl ImportError" and environ = ?env and c' = c']
    c c' m id
  show ?thesis by simp
qed

end
